theory Spec2Isabelle
  imports Main "HOL-Library.Word"
begin

section \<open>Runtime values\<close>

text \<open>
  A string of the runtime is a sequence of UTF-16 code units. \<open>lit\<close> turns an ASCII
  literal of the source into its code units.
\<close>

type_synonym code_unit = "16 word"
type_synonym jsstring = "code_unit list"

definition lit :: "string \<Rightarrow> jsstring" where
  "lit s = map (\<lambda>c. of_nat (of_char c)) s"

text \<open>
  \<open>String.prototype.trim\<close> removes white space and line terminators from both ends:
  TAB, VT, FF, SP, NBSP, ZWNBSP, the space separators of Unicode (all of them in the
  basic plane, so each is one code unit), and LF, CR, LS, PS.
\<close>

definition isWhiteSpace :: "code_unit \<Rightarrow> bool" where
  "isWhiteSpace c \<longleftrightarrow>
     c = 0x0009 \<or> c = 0x000B \<or> c = 0x000C \<or> c = 0x0020 \<or> c = 0x00A0 \<or> c = 0xFEFF \<or>
     c = 0x1680 \<or> (0x2000 \<le> c \<and> c \<le> 0x200A) \<or> c = 0x202F \<or> c = 0x205F \<or>
     c = 0x3000 \<or> c = 0x000A \<or> c = 0x000D \<or> c = 0x2028 \<or> c = 0x2029"

definition trim :: "jsstring \<Rightarrow> jsstring" where
  "trim s = rev (dropWhile isWhiteSpace (rev (dropWhile isWhiteSpace s)))"

text \<open>
  The values \<open>JSON.parse\<close> can return. The declared type of the history state is
  \<open>HistoryItem[]\<close>, but \<open>JSON.parse\<close> returns \<open>any\<close> and nothing checks it, so the
  state variable holds whatever value was parsed. Numbers are carried as integers (a
  timestamp is one); the code never computes with a number.
\<close>

datatype jsvalue =
    JNull
  | JBool bool
  | JNum int
  | JStr jsstring
  | JArr "jsvalue list"
  | JObj "(jsstring \<times> jsvalue) list"

datatype failure = SyntaxError | TypeError | RequestFailed

text \<open>
  Spreading a value into an array literal (\<open>[newItem, ...prev]\<close>) iterates it: an array
  yields its elements, a string its code points (a surrogate pair is one element), and
  any other value of \<open>jsvalue\<close> is not iterable, which throws a \<open>TypeError\<close>.
\<close>

definition isHighSurrogate :: "code_unit \<Rightarrow> bool" where
  "isHighSurrogate c \<longleftrightarrow> 0xD800 \<le> c \<and> c \<le> 0xDBFF"

definition isLowSurrogate :: "code_unit \<Rightarrow> bool" where
  "isLowSurrogate c \<longleftrightarrow> 0xDC00 \<le> c \<and> c \<le> 0xDFFF"

fun codePoints :: "jsstring \<Rightarrow> jsstring list" where
  "codePoints [] = []"
| "codePoints [c] = [[c]]"
| "codePoints (c # d # cs) =
     (if isHighSurrogate c \<and> isLowSurrogate d then [c, d] # codePoints cs
      else [c] # codePoints (d # cs))"

fun spread :: "jsvalue \<Rightarrow> failure + jsvalue list" where
  "spread (JArr xs) = Inr xs"
| "spread (JStr s) = Inr (map JStr (codePoints s))"
| "spread _ = Inl TypeError"

section \<open>types.ts\<close>

datatype YapStyle =
    DEFAULT | ZOOMER | CORPORATE | ACADEMIC | PIRATE
  | SHAKESPEAREAN | LINKEDIN | TECH_BRO | ANGRY_BOOMER | PHILOSOPHER

fun YapStyle_value :: "YapStyle \<Rightarrow> jsstring" where
  "YapStyle_value DEFAULT = lit ''Default''"
| "YapStyle_value ZOOMER = lit ''Zoomer / Brainrot''"
| "YapStyle_value CORPORATE = lit ''Corporate Speak''"
| "YapStyle_value ACADEMIC = lit ''Academic / Intellectual''"
| "YapStyle_value PIRATE = lit ''Pirate''"
| "YapStyle_value SHAKESPEAREAN = lit ''Shakespearean''"
| "YapStyle_value LINKEDIN = lit ''LinkedIn Lunatic''"
| "YapStyle_value TECH_BRO = lit ''SF Tech Bro''"
| "YapStyle_value ANGRY_BOOMER = lit ''Angry Boomer''"
| "YapStyle_value PHILOSOPHER = lit ''Existential Philosopher''"

datatype YapLength = SHORT | MEDIUM | LONG | EXTREME

fun YapLength_value :: "YapLength \<Rightarrow> jsstring" where
  "YapLength_value SHORT = lit ''Short (Quick Yap)''"
| "YapLength_value MEDIUM = lit ''Medium (Solid Rant)''"
| "YapLength_value LONG = lit ''Long (Full Manifesto)''"
| "YapLength_value EXTREME = lit ''Extreme (Filibuster)''"

text \<open>
  \<open>YapRequest\<close>: the three arguments of one call of \<open>generateYap\<close>. The field names
  carry a prefix, since the application state has fields of the same names.
\<close>

record YapRequest =
  req_topic :: jsstring
  req_style :: YapStyle
  req_length :: YapLength

record HistoryItem =
  item_id :: jsstring
  item_topic :: jsstring
  item_content :: jsstring
  item_style :: YapStyle
  item_timestamp :: int

text \<open>The object a \<open>HistoryItem\<close> is at run time: an enum member is its string.\<close>

definition HistoryItem_value :: "HistoryItem \<Rightarrow> jsvalue" where
  "HistoryItem_value i =
     JObj [(lit ''id'', JStr (item_id i)),
           (lit ''topic'', JStr (item_topic i)),
           (lit ''content'', JStr (item_content i)),
           (lit ''style'', JStr (YapStyle_value (item_style i))),
           (lit ''timestamp'', JNum (item_timestamp i))]"

section \<open>The browser: local storage, JSON, console\<close>

text \<open>
  Local storage maps keys to texts. A text is represented by what the code can observe
  of it: whether it is empty (the guard \<open>if (saved)\<close> takes the empty string as false),
  and what \<open>JSON.parse\<close> makes of it, a \<open>SyntaxError\<close> or a value. \<open>JSON.stringify\<close>
  of a value is then the text that parses to this value: the values stringified here
  are built from arrays, objects, strings and integers only, for which parsing the
  serialisation gives the value back.
\<close>

datatype stored_text = Empty_text | Malformed_text | Json_text jsvalue

fun JSON_parse :: "stored_text \<Rightarrow> failure + jsvalue" where
  "JSON_parse Empty_text = Inl SyntaxError"
| "JSON_parse Malformed_text = Inl SyntaxError"
| "JSON_parse (Json_text v) = Inr v"

definition JSON_stringify :: "jsvalue \<Rightarrow> stored_text" where
  "JSON_stringify v = Json_text v"

datatype log_entry = Log_message jsstring | Log_exception

definition yap_history :: jsstring where
  "yap_history = lit ''yap_history''"

section \<open>The App component\<close>

text \<open>
  The state variables and refs of \<open>App\<close>, followed by the parts of the browser the
  handlers act on: local storage, the console, the calls of \<open>generateYap\<close> issued so far,
  and the media recorders (numbered in the order of their creation) that are capturing.
\<close>

record App_state =
  topic :: jsstring
  style :: YapStyle
  length_yap :: YapLength
  generatedContent :: jsstring
  isLoading :: bool
  history :: jsvalue
  error :: "jsstring option"
  isRecording :: bool
  isTranscribing :: bool
  mediaRecorderRef :: "nat option"
  audioChunksRef :: "nat list"
  localStorage :: "jsstring \<rightharpoonup> stored_text"
  console_error :: "log_entry list"
  generateYap_calls :: "YapRequest list"
  recorders_created :: nat
  recorders_capturing :: "nat list"

definition initial_state :: "(jsstring \<rightharpoonup> stored_text) \<Rightarrow> App_state" where
  "initial_state storage =
     \<lparr>topic = [], style = ZOOMER, length_yap = MEDIUM, generatedContent = [],
      isLoading = False, history = JArr [], error = None,
      isRecording = False, isTranscribing = False,
      mediaRecorderRef = None, audioChunksRef = [],
      localStorage = storage, console_error = [], generateYap_calls = [],
      recorders_created = 0, recorders_capturing = []\<rparr>"

subsection \<open>The two effects on the history\<close>

text \<open>
  The load effect (dependencies \<open>[]\<close>, so it runs after the first render only) reads the
  entry. \<open>setHistory\<close> does not change the rendered state: it queues the value for the
  next render, so the effect returns the queued value beside the state.
\<close>

definition load_history_effect :: "App_state \<Rightarrow> App_state \<times> jsvalue option" where
  "load_history_effect s =
     (case localStorage s yap_history of
        None \<Rightarrow> (s, None)
      | Some saved \<Rightarrow>
          if saved = Empty_text then (s, None)
          else (case JSON_parse saved of
                  Inr v \<Rightarrow> (s, Some v)
                | Inl e \<Rightarrow>
                    (s\<lparr>console_error :=
                         console_error s @ [Log_message (lit ''Failed to parse history'')]\<rparr>,
                     None)))"

text \<open>
  The save effect (dependencies \<open>[history]\<close>) runs after the first render and after every
  render in which \<open>history\<close> is not the same value as in the render before.
\<close>

definition save_history_effect :: "App_state \<Rightarrow> App_state" where
  "save_history_effect s =
     s\<lparr>localStorage := (localStorage s)(yap_history \<mapsto> JSON_stringify (history s))\<rparr>"

text \<open>
  Mounting the component on a storage: the first render with the initial state, its two
  effects in the order of the source (the save effect sees the history of the first
  render, the empty array), and, when the load effect has queued a value, the second
  render with that value, after which the save effect runs again: a parsed value is never
  the array of the first render.
\<close>

definition mount :: "(jsstring \<rightharpoonup> stored_text) \<Rightarrow> App_state" where
  "mount storage =
     (case load_history_effect (initial_state storage) of
        (s1, queued) \<Rightarrow>
          (let s2 = save_history_effect s1
           in case queued of
                None \<Rightarrow> s2
              | Some v \<Rightarrow> save_history_effect (s2\<lparr>history := v\<rparr>)))"

subsection \<open>handleGenerate\<close>

text \<open>
  \<open>handleGenerate\<close> runs up to its \<open>await\<close>, where the call of \<open>generateYap\<close> has been
  issued with the topic, style and length of the render the handler belongs to; these
  three are also what the rest of the handler sees when the call settles.
\<close>

definition handleGenerate_begin :: "App_state \<Rightarrow> App_state \<times> YapRequest option" where
  "handleGenerate_begin s =
     (if trim (topic s) = [] then
        (s\<lparr>error := Some (lit ''Please enter a topic to yap about.'')\<rparr>, None)
      else
        (let req = \<lparr>req_topic = topic s, req_style = style s, req_length = length_yap s\<rparr>
         in (s\<lparr>error := None, isLoading := True, generatedContent := [],
               generateYap_calls := generateYap_calls s @ [req]\<rparr>,
             Some req)))"

text \<open>The updater \<open>prev => [newItem, ...prev].slice(0, 10)\<close>.\<close>

definition keep_last_10 :: "jsvalue \<Rightarrow> jsvalue \<Rightarrow> failure + jsvalue" where
  "keep_last_10 newItem prev =
     (case spread prev of
        Inl e \<Rightarrow> Inl e
      | Inr xs \<Rightarrow> Inr (JArr (take 10 (newItem # xs))))"

text \<open>
  The rest of the handler, run when the call settles: \<open>outcome\<close> is the result of
  \<open>generateYap\<close> (\<open>Inl\<close> when it rejects), \<open>uuid\<close> the value of \<open>crypto.randomUUID()\<close> and
  \<open>now\<close> that of \<open>Date.now()\<close>. The updater is applied to the history of the state the
  call settles in. The array it returns is a new one, so the render that follows runs the
  save effect. An updater that throws takes the render, and with it the component, down:
  the result is \<open>Inl\<close>.
\<close>

definition handleGenerate_settle ::
    "YapRequest \<Rightarrow> failure + jsstring \<Rightarrow> jsstring \<Rightarrow> int \<Rightarrow> App_state \<Rightarrow> failure + App_state" where
  "handleGenerate_settle req outcome uuid now s =
     (case outcome of
        Inl e \<Rightarrow>
          Inr (s\<lparr>error := Some (lit ''Failed to generate yap. Please try again.''),
                 isLoading := False\<rparr>)
      | Inr result \<Rightarrow>
          (let newItem = \<lparr>item_id = uuid, item_topic = req_topic req, item_content = result,
                          item_style = req_style req, item_timestamp = now\<rparr>
           in case keep_last_10 (HistoryItem_value newItem) (history s) of
                Inl e \<Rightarrow> Inl e
              | Inr h \<Rightarrow>
                  Inr (save_history_effect
                         (s\<lparr>generatedContent := result, history := h, isLoading := False\<rparr>))))"

text \<open>One invocation with nothing else happening between the call and its result.\<close>

definition handleGenerate ::
    "failure + jsstring \<Rightarrow> jsstring \<Rightarrow> int \<Rightarrow> App_state \<Rightarrow> failure + App_state" where
  "handleGenerate outcome uuid now s =
     (case handleGenerate_begin s of
        (s1, None) \<Rightarrow> Inr s1
      | (s1, Some req) \<Rightarrow> handleGenerate_settle req outcome uuid now s1)"

subsection \<open>handleClearHistory and handleSelectHistory\<close>

text \<open>
  The handler itself: the history is set to a new empty array and the entry is removed.
\<close>

definition handleClearHistory :: "App_state \<Rightarrow> App_state" where
  "handleClearHistory s =
     s\<lparr>history := JArr [], localStorage := (localStorage s)(yap_history := None)\<rparr>"

text \<open>
  The click on "clear" as the component runs it: the handler, then the render its
  \<open>setHistory([])\<close> causes. The empty array literal is a new array, never the one of the
  render before, so the dependency \<open>[history]\<close> has changed and the save effect runs.
\<close>

definition clear_history :: "App_state \<Rightarrow> App_state" where
  "clear_history s = save_history_effect (handleClearHistory s)"

text \<open>\<open>handleSelectHistory\<close>: three state variables are set; the scrolling is not state.\<close>

definition handleSelectHistory :: "HistoryItem \<Rightarrow> App_state \<Rightarrow> App_state" where
  "handleSelectHistory item s =
     s\<lparr>topic := item_topic item, style := item_style item,
       generatedContent := item_content item\<rparr>"

subsection \<open>Recording\<close>

text \<open>
  \<open>startRecording\<close>: \<open>Denied\<close> stands for every way the \<open>try\<close> block can throw
  (permission refused, no media devices, no \<open>MediaRecorder\<close>), \<open>Granted\<close> for the run
  that gets a stream, creates a recorder on it and starts it. The function does not read
  \<open>isRecording\<close>.
\<close>

datatype mic_outcome = Granted | Denied

definition startRecording :: "mic_outcome \<Rightarrow> App_state \<Rightarrow> App_state" where
  "startRecording m s =
     (case m of
        Granted \<Rightarrow>
          s\<lparr>mediaRecorderRef := Some (recorders_created s), audioChunksRef := [],
            recorders_created := Suc (recorders_created s),
            recorders_capturing := recorders_created s # recorders_capturing s,
            isRecording := True, error := None\<rparr>
      | Denied \<Rightarrow>
          s\<lparr>console_error := console_error s @ [Log_exception],
            error := Some (lit ''Microphone access denied or not supported.'')\<rparr>)"

text \<open>\<open>ondataavailable\<close>, with the size of the chunk.\<close>

definition ondataavailable :: "nat \<Rightarrow> App_state \<Rightarrow> App_state" where
  "ondataavailable size_of_data s =
     (if size_of_data > 0 then s\<lparr>audioChunksRef := audioChunksRef s @ [size_of_data]\<rparr> else s)"

definition stopRecording :: "App_state \<Rightarrow> App_state" where
  "stopRecording s =
     (case mediaRecorderRef s of
        Some r \<Rightarrow>
          if isRecording s then
            s\<lparr>recorders_capturing := removeAll r (recorders_capturing s), isRecording := False\<rparr>
          else s
      | None \<Rightarrow> s)"

text \<open>
  \<open>onstop\<close> up to its first \<open>await\<close>, and the rest of it, run when \<open>blobToBase64\<close> and
  \<open>transcribeAudio\<close> have settled: \<open>Inr text\<close> when both resolved, \<open>Inl\<close> when either
  rejected. The updater of \<open>setTopic\<close> is applied to the topic of the state the call
  settles in. The handler ends by stopping the tracks of its stream, which no state
  variable records.
\<close>

definition onstop_begin :: "App_state \<Rightarrow> App_state" where
  "onstop_begin s = s\<lparr>isTranscribing := True\<rparr>"

definition onstop_settle :: "failure + jsstring \<Rightarrow> App_state \<Rightarrow> App_state" where
  "onstop_settle outcome s =
     (case outcome of
        Inr text \<Rightarrow>
          if text \<noteq> [] then
            s\<lparr>topic := (let trimmed = trim (topic s)
                        in if trimmed \<noteq> [] then trimmed @ lit '' '' @ text else text)\<rparr>
          else s
      | Inl e \<Rightarrow> s\<lparr>error := Some (lit ''Failed to transcribe audio. Please try again.'')\<rparr>)
     \<lparr>isTranscribing := False\<rparr>"

definition onstop :: "failure + jsstring \<Rightarrow> App_state \<Rightarrow> App_state" where
  "onstop outcome s = onstop_settle outcome (onstop_begin s)"

text \<open>
  The record button: disabled while a transcription is in flight, and its \<open>onClick\<close> is
  \<open>isRecording ? stopRecording : startRecording\<close>.
\<close>

datatype button_action = Disabled | Stops | Starts

definition record_button :: "App_state \<Rightarrow> button_action" where
  "record_button s =
     (if isTranscribing s then Disabled
      else if isRecording s then Stops
      else Starts)"

text \<open>One click, with the microphone answering before anything else happens.\<close>

definition record_button_click :: "mic_outcome \<Rightarrow> App_state \<Rightarrow> App_state" where
  "record_button_click m s =
     (case record_button s of
        Disabled \<Rightarrow> s
      | Stops \<Rightarrow> stopRecording s
      | Starts \<Rightarrow> startRecording m s)"

subsection \<open>Runs of the component\<close>

text \<open>
  What can happen to a mounted component, one event at a time. The two halves of
  \<open>handleGenerate\<close> and of \<open>onstop\<close> are events of their own, so that anything may happen
  between a call and its result; a settling call may carry any request. A click that
  invokes \<open>startRecording\<close> changes nothing until \<open>getUserMedia\<close> has answered, which
  is the event \<open>Microphone_settle\<close>. The shortcut (command and Enter) reaches
  \<open>handleGenerate\<close> whatever the loading flag says, so \<open>Generate_begin\<close> has no guard.
\<close>

datatype event =
    Change_topic jsstring
  | Change_style YapStyle
  | Change_length YapLength
  | Generate_begin
  | Generate_settle YapRequest "failure + jsstring" jsstring int
  | Clear_history
  | Select_history HistoryItem
  | Record_button
  | Microphone_settle mic_outcome
  | Data_available nat
  | Stop_begin
  | Stop_settle "failure + jsstring"

fun step :: "event \<Rightarrow> App_state \<Rightarrow> failure + App_state" where
  "step (Change_topic t) s = Inr (s\<lparr>topic := t\<rparr>)"
| "step (Change_style st) s = Inr (s\<lparr>style := st\<rparr>)"
| "step (Change_length l) s = Inr (s\<lparr>length_yap := l\<rparr>)"
| "step Generate_begin s = Inr (fst (handleGenerate_begin s))"
| "step (Generate_settle req outcome uuid now) s = handleGenerate_settle req outcome uuid now s"
| "step Clear_history s = Inr (clear_history s)"
| "step (Select_history item) s = Inr (handleSelectHistory item s)"
| "step Record_button s =
     Inr (case record_button s of Disabled \<Rightarrow> s | Stops \<Rightarrow> stopRecording s | Starts \<Rightarrow> s)"
| "step (Microphone_settle m) s = Inr (startRecording m s)"
| "step (Data_available n) s = Inr (ondataavailable n s)"
| "step Stop_begin s = Inr (onstop_begin s)"
| "step (Stop_settle outcome) s = Inr (onstop_settle outcome s)"

fun run :: "event list \<Rightarrow> App_state \<Rightarrow> failure + App_state" where
  "run [] s = Inr s"
| "run (e # es) s = (case step e s of Inl f \<Rightarrow> Inl f | Inr s' \<Rightarrow> run es s')"

section \<open>Capacity of the history cache\<close>

text \<open>
  The history is within capacity when it is an array of at most 10 entries; a storage
  entry is, when loading it gives such a history: no entry, an empty or unparsable text,
  or the text of such an array.
\<close>

fun within_capacity :: "jsvalue \<Rightarrow> bool" where
  "within_capacity (JArr xs) = (length xs \<le> 10)"
| "within_capacity _ = False"

fun entry_within_capacity :: "stored_text option \<Rightarrow> bool" where
  "entry_within_capacity None = True"
| "entry_within_capacity (Some Empty_text) = True"
| "entry_within_capacity (Some Malformed_text) = True"
| "entry_within_capacity (Some (Json_text v)) = within_capacity v"

definition cache_inv :: "App_state \<Rightarrow> bool" where
  "cache_inv s \<longleftrightarrow>
     within_capacity (history s) \<and> entry_within_capacity (localStorage s yap_history)"

text \<open>
  A successful generation: the request, the generated text, the identifier and the time.
  \<open>recorded\<close> is the item \<open>handleGenerate\<close> builds for it, \<open>settled\<close> the event of its call
  resolving.
\<close>

type_synonym generation = "YapRequest \<times> jsstring \<times> jsstring \<times> int"

fun recorded :: "generation \<Rightarrow> jsvalue" where
  "recorded (req, result, uuid, now) =
     HistoryItem_value
       \<lparr>item_id = uuid, item_topic = req_topic req, item_content = result,
        item_style = req_style req, item_timestamp = now\<rparr>"

fun settled :: "generation \<Rightarrow> event" where
  "settled (req, result, uuid, now) = Generate_settle req (Inr result) uuid now"

text \<open>An item for examples, with the given timestamp.\<close>

definition example_item :: "int \<Rightarrow> HistoryItem" where
  "example_item n =
     \<lparr>item_id = lit ''id'', item_topic = lit ''cats'', item_content = lit ''yap'',
      item_style = ZOOMER, item_timestamp = n\<rparr>"

section \<open>Evaluation of literals and of trim\<close>

lemma lit_simps: "lit [] = []" "lit (c # cs) = of_nat (of_char c) # lit cs"
  by (simp_all add: lit_def)

lemma trim_not_Nil_imp: "trim t \<noteq> [] \<Longrightarrow> t \<noteq> []"
  by (auto simp: trim_def)

section \<open>Generate\<close>

text \<open>
  C2. When the topic is not empty after trimming, \<open>handleGenerate\<close> issues exactly one
  call of \<open>generateYap\<close>, with the topic, style and length of the state: the call is added
  to the calls issued when the handler reaches its \<open>await\<close>, and whenever the invocation
  completes the calls issued are those of before followed by this one. When the topic is
  empty or white space only, the invocation ends with the validation message as error and
  nothing else changed, so no call is issued.
\<close>

theorem generate_one_call_iff_topic_not_blank:
  "(trim (topic s) \<noteq> [] \<longrightarrow>
      (\<exists>s1. handleGenerate_begin s =
              (s1, Some \<lparr>req_topic = topic s, req_style = style s, req_length = length_yap s\<rparr>)
          \<and> generateYap_calls s1 =
              generateYap_calls s @
                [\<lparr>req_topic = topic s, req_style = style s, req_length = length_yap s\<rparr>])
      \<and> (\<forall>s'. handleGenerate outcome uuid now s = Inr s' \<longrightarrow>
             generateYap_calls s' =
               generateYap_calls s @
                 [\<lparr>req_topic = topic s, req_style = style s, req_length = length_yap s\<rparr>]))
   \<and> (trim (topic s) = [] \<longrightarrow>
        handleGenerate_begin s =
          (s\<lparr>error := Some (lit ''Please enter a topic to yap about.'')\<rparr>, None)
        \<and> handleGenerate outcome uuid now s =
          Inr (s\<lparr>error := Some (lit ''Please enter a topic to yap about.'')\<rparr>)
        \<and> generateYap_calls (s\<lparr>error := Some (lit ''Please enter a topic to yap about.'')\<rparr>) =
          generateYap_calls s)"
  by (auto simp: handleGenerate_def handleGenerate_begin_def handleGenerate_settle_def
        save_history_effect_def Let_def split: sum.splits)

theorem generate_one_call_iff_topic_not_blank_witness:
  "generateYap_calls
     (fst (handleGenerate_begin ((initial_state Map.empty)\<lparr>topic := lit ''cats''\<rparr>))) =
     [\<lparr>req_topic = lit ''cats'', req_style = ZOOMER, req_length = MEDIUM\<rparr>]
   \<and> handleGenerate (Inr (lit ''yap'')) (lit ''id'') 0
        ((initial_state Map.empty)\<lparr>topic := lit ''  ''\<rparr>) =
      Inr ((initial_state Map.empty)
             \<lparr>topic := lit ''  '', error := Some (lit ''Please enter a topic to yap about.'')\<rparr>)"
proof -
  let ?a = "(initial_state Map.empty)\<lparr>topic := lit ''cats''\<rparr>"
  let ?b = "(initial_state Map.empty)\<lparr>topic := lit ''  ''\<rparr>"
  have a: "trim (topic ?a) \<noteq> []"
    by (simp add: trim_def lit_simps isWhiteSpace_def)
  have b: "trim (topic ?b) = []"
    by (simp add: trim_def lit_simps isWhiteSpace_def)
  from a generate_one_call_iff_topic_not_blank [of ?a "Inr (lit ''yap'')" "lit ''id''" 0]
  obtain s1 where "handleGenerate_begin ?a =
        (s1, Some \<lparr>req_topic = topic ?a, req_style = style ?a, req_length = length_yap ?a\<rparr>)"
    and "generateYap_calls s1 = generateYap_calls ?a @
            [\<lparr>req_topic = topic ?a, req_style = style ?a, req_length = length_yap ?a\<rparr>]"
    by blast
  then have "generateYap_calls (fst (handleGenerate_begin ?a)) =
          generateYap_calls ?a @
            [\<lparr>req_topic = topic ?a, req_style = style ?a, req_length = length_yap ?a\<rparr>]"
    by simp
  moreover from b generate_one_call_iff_topic_not_blank [of ?b "Inr (lit ''yap'')" "lit ''id''" 0]
  have "handleGenerate (Inr (lit ''yap'')) (lit ''id'') 0 ?b =
          Inr (?b\<lparr>error := Some (lit ''Please enter a topic to yap about.'')\<rparr>)"
    by blast
  ultimately show ?thesis
    by (simp add: initial_state_def)
qed

text \<open>
  C3. An invocation of \<open>handleGenerate\<close> whose call of \<open>generateYap\<close> rejects ends in a
  state with empty displayed content, the fixed failure message as error, the loading
  flag false, and the history and the storage of before the invocation. The second half
  says the same of the handler's rest alone, from whatever state the rejection arrives
  in: it sets the error and the loading flag and nothing else.
\<close>

theorem generate_failure_state:
  assumes "trim (topic s) \<noteq> []"
  shows "(\<exists>s'. handleGenerate (Inl e) uuid now s = Inr s'
           \<and> generatedContent s' = []
           \<and> error s' = Some (lit ''Failed to generate yap. Please try again.'')
           \<and> isLoading s' = False
           \<and> history s' = history s
           \<and> localStorage s' = localStorage s)
         \<and> (\<exists>s2. handleGenerate_settle req (Inl e) uuid now s1 = Inr s2
           \<and> error s2 = Some (lit ''Failed to generate yap. Please try again.'')
           \<and> isLoading s2 = False
           \<and> generatedContent s2 = generatedContent s1
           \<and> history s2 = history s1
           \<and> localStorage s2 = localStorage s1)"
  using assms
  by (simp add: handleGenerate_def handleGenerate_begin_def handleGenerate_settle_def Let_def)

theorem generate_failure_state_witness:
  "trim (lit ''cats'') \<noteq> []
   \<and> (\<exists>s'. handleGenerate (Inl RequestFailed) (lit ''id'') 7
              ((initial_state Map.empty)
                 \<lparr>topic := lit ''cats'', generatedContent := lit ''old'',
                  history := JArr [JNull]\<rparr>) = Inr s'
           \<and> generatedContent s' = []
           \<and> error s' = Some (lit ''Failed to generate yap. Please try again.'')
           \<and> isLoading s' = False
           \<and> history s' = JArr [JNull])"
proof -
  let ?s = "(initial_state Map.empty)
              \<lparr>topic := lit ''cats'', generatedContent := lit ''old'', history := JArr [JNull]\<rparr>"
  have h: "trim (topic ?s) \<noteq> []"
    by (simp add: trim_def lit_simps isWhiteSpace_def)
  from generate_failure_state [OF h, of RequestFailed "lit ''id''" 7] h
  show ?thesis by auto
qed

text \<open>
  C5, as the claim states it, fails: the topic goes to \<open>generateYap\<close> and into the
  \<open>HistoryItem\<close> as it stands in the state; \<open>trim\<close> is applied in the guard only. With the
  topic \<open>" a"\<close> the request carries \<open>" a"\<close>, which is not its own trimming, and so does the
  item recorded on success.
\<close>

theorem generate_topic_untrimmed_counterexample:
  "snd (handleGenerate_begin ((initial_state Map.empty)\<lparr>topic := lit '' a''\<rparr>)) =
     Some \<lparr>req_topic = lit '' a'', req_style = ZOOMER, req_length = MEDIUM\<rparr>
   \<and> trim (lit '' a'') \<noteq> lit '' a''
   \<and> map_sum id history
        (handleGenerate (Inr (lit ''yap'')) (lit ''id'') 7
           ((initial_state Map.empty)\<lparr>topic := lit '' a''\<rparr>)) =
      Inr (JArr [HistoryItem_value
                   \<lparr>item_id = lit ''id'', item_topic = lit '' a'', item_content = lit ''yap'',
                    item_style = ZOOMER, item_timestamp = 7\<rparr>])"
  by (simp add: handleGenerate_def handleGenerate_begin_def handleGenerate_settle_def
        keep_last_10_def save_history_effect_def initial_state_def Let_def
        trim_def lit_simps isWhiteSpace_def)

text \<open>
  C5, amended. Every request \<open>handleGenerate\<close> constructs carries the topic of the state
  exactly as entered; that topic is not empty after trimming, hence not empty. The item
  recorded when the call resolves (on a history that is an array) carries the same
  topic, again as entered.
\<close>

theorem generate_topic_as_entered:
  assumes "handleGenerate_begin s = (s1, Some req)"
  shows "req_topic req = topic s \<and> trim (req_topic req) \<noteq> [] \<and> req_topic req \<noteq> []
         \<and> (\<forall>prev. history s2 = JArr prev \<longrightarrow>
               (\<exists>s3. handleGenerate_settle req (Inr result) uuid now s2 = Inr s3
                  \<and> history s3 =
                      JArr (take 10
                        (HistoryItem_value
                           \<lparr>item_id = uuid, item_topic = topic s, item_content = result,
                            item_style = style s, item_timestamp = now\<rparr> # prev))))"
proof -
  from assms have nb: "trim (topic s) \<noteq> []"
    by (auto simp: handleGenerate_begin_def split: if_splits)
  with assms have req: "req = \<lparr>req_topic = topic s, req_style = style s, req_length = length_yap s\<rparr>"
    by (auto simp: handleGenerate_begin_def Let_def)
  from nb have "topic s \<noteq> []" by (rule trim_not_Nil_imp)
  with nb req show ?thesis
    by (simp add: handleGenerate_settle_def keep_last_10_def save_history_effect_def Let_def)
qed

theorem generate_topic_as_entered_witness:
  "handleGenerate_begin ((initial_state Map.empty)\<lparr>topic := lit '' a''\<rparr>) =
     ((initial_state Map.empty)
        \<lparr>topic := lit '' a'', isLoading := True,
         generateYap_calls := [\<lparr>req_topic = lit '' a'', req_style = ZOOMER, req_length = MEDIUM\<rparr>]\<rparr>,
      Some \<lparr>req_topic = lit '' a'', req_style = ZOOMER, req_length = MEDIUM\<rparr>)
   \<and> trim (lit '' a'') \<noteq> []
   \<and> (\<exists>s3. handleGenerate_settle
              \<lparr>req_topic = lit '' a'', req_style = ZOOMER, req_length = MEDIUM\<rparr>
              (Inr (lit ''yap'')) (lit ''id'') 7 (initial_state Map.empty) = Inr s3
         \<and> history s3 =
             JArr [HistoryItem_value
                     \<lparr>item_id = lit ''id'', item_topic = lit '' a'', item_content = lit ''yap'',
                      item_style = ZOOMER, item_timestamp = 7\<rparr>])"
proof -
  let ?s = "(initial_state Map.empty)\<lparr>topic := lit '' a''\<rparr>"
  let ?req = "\<lparr>req_topic = lit '' a'', req_style = ZOOMER, req_length = MEDIUM\<rparr>"
  let ?s1 = "(initial_state Map.empty)\<lparr>topic := lit '' a'', isLoading := True,
               generateYap_calls := [?req]\<rparr>"
  have b: "handleGenerate_begin ?s = (?s1, Some ?req)"
    by (simp add: handleGenerate_begin_def initial_state_def Let_def
          trim_def lit_simps isWhiteSpace_def)
  have h: "history (initial_state Map.empty) = JArr []"
    by (simp add: initial_state_def)
  from generate_topic_as_entered [OF b, of "initial_state Map.empty" "lit ''yap''" "lit ''id''" 7]
  have "trim (req_topic ?req) \<noteq> []"
    and "\<forall>prev. history (initial_state Map.empty) = JArr prev \<longrightarrow>
           (\<exists>s3. handleGenerate_settle ?req (Inr (lit ''yap'')) (lit ''id'') 7
                    (initial_state Map.empty) = Inr s3
              \<and> history s3 =
                  JArr (take 10
                    (HistoryItem_value
                       \<lparr>item_id = lit ''id'', item_topic = topic ?s, item_content = lit ''yap'',
                        item_style = style ?s, item_timestamp = 7\<rparr> # prev)))"
    by blast+
  with b h show ?thesis
    by (simp add: initial_state_def)
qed

section \<open>Transcription\<close>

text \<open>
  C10. When the transcription resolves with the empty string, the handler's rest changes
  nothing but the transcribing flag: the topic is what it was, whether empty or not.
\<close>

theorem empty_transcript_leaves_topic:
  "onstop_settle (Inr []) s = s\<lparr>isTranscribing := False\<rparr>
   \<and> topic (onstop_settle (Inr []) s) = topic s
   \<and> topic (onstop (Inr []) s) = topic s"
  by (simp add: onstop_def onstop_settle_def onstop_begin_def)

text \<open>
  C7, as the claim states it, fails: the transcript is joined to the trimmed topic, not to
  the topic. With the topic \<open>"a "\<close> and the transcript \<open>"b"\<close> the new topic is \<open>"a b"\<close>, not
  the topic, a space and the transcript; and the topic \<open>" "\<close>, which is not empty, is
  replaced by the transcript, not joined to it.
\<close>

theorem transcript_joined_to_trimmed_topic_counterexample:
  "topic (onstop (Inr (lit ''b'')) ((initial_state Map.empty)\<lparr>topic := lit ''a ''\<rparr>)) = lit ''a b''
   \<and> lit ''a '' @ lit '' '' @ lit ''b'' \<noteq> lit ''a b''
   \<and> topic (onstop (Inr (lit ''b'')) ((initial_state Map.empty)\<lparr>topic := lit '' ''\<rparr>)) = lit ''b''
   \<and> lit '' '' \<noteq> []"
  by (simp add: onstop_def onstop_settle_def onstop_begin_def initial_state_def
        trim_def lit_simps isWhiteSpace_def)

text \<open>
  C7, amended. When the transcription resolves with a transcript that is not empty, the
  topic becomes the trimmed topic, a space and the transcript if the trimmed topic is not
  empty, and the transcript alone otherwise; the error is left as it was. When it fails,
  the error becomes the fixed transcription message and the topic is unchanged. Either way
  the transcribing flag is cleared.
\<close>

theorem transcription_resolved_topic:
  "topic (onstop_settle (Inr text) s) =
     (if text = [] then topic s
      else if trim (topic s) \<noteq> [] then trim (topic s) @ lit '' '' @ text
      else text)
   \<and> error (onstop_settle (Inr text) s) = error s
   \<and> topic (onstop_settle (Inl e) s) = topic s
   \<and> error (onstop_settle (Inl e) s) =
       Some (lit ''Failed to transcribe audio. Please try again.'')
   \<and> isTranscribing (onstop_settle outcome s) = False"
  by (simp add: onstop_settle_def Let_def split: sum.splits)

section \<open>The history cache\<close>

subsection \<open>Loading, recording and clearing\<close>

lemma mount_history:
  "history (mount storage) =
     (case storage yap_history of Some (Json_text v) \<Rightarrow> v | _ \<Rightarrow> JArr [])"
  by (simp add: mount_def load_history_effect_def initial_state_def save_history_effect_def
        split: option.splits stored_text.splits)

lemma clear_history_entry:
  "localStorage (handleClearHistory s) yap_history = None"
  "localStorage (clear_history s) yap_history = Some (Json_text (JArr []))"
  "history (clear_history s) = JArr []"
  by (simp_all add: clear_history_def handleClearHistory_def save_history_effect_def
        JSON_stringify_def)

lemma within_capacity_iff: "within_capacity v \<longleftrightarrow> (\<exists>xs. v = JArr xs \<and> length xs \<le> 10)"
  by (cases v) auto

lemma settle_success:
  assumes "history s = JArr prev"
  shows "handleGenerate_settle req (Inr result) uuid now s =
           Inr (save_history_effect
                  (s\<lparr>generatedContent := result,
                     history := JArr (take 10 (recorded (req, result, uuid, now) # prev)),
                     isLoading := False\<rparr>))"
  using assms by (simp add: handleGenerate_settle_def keep_last_10_def Let_def)

lemma save_history_effect_inv:
  "within_capacity (history s) \<Longrightarrow> cache_inv (save_history_effect s)"
  by (simp add: cache_inv_def save_history_effect_def JSON_stringify_def)

lemma settle_cache_inv:
  assumes "cache_inv s"
  shows "\<exists>s'. handleGenerate_settle req outcome uuid now s = Inr s' \<and> cache_inv s'"
proof (cases outcome)
  case (Inl e)
  with assms show ?thesis
    by (simp add: handleGenerate_settle_def cache_inv_def)
next
  case (Inr result)
  from assms obtain prev where prev: "history s = JArr prev"
    by (auto simp: cache_inv_def within_capacity_iff)
  have "cache_inv (save_history_effect
                  (s\<lparr>generatedContent := result,
                     history := JArr (take 10 (recorded (req, result, uuid, now) # prev)),
                     isLoading := False\<rparr>))"
    by (rule save_history_effect_inv) simp
  with Inr settle_success [OF prev] show ?thesis by simp
qed

lemma step_cache_inv:
  assumes "cache_inv s"
  shows "\<exists>s'. step e s = Inr s' \<and> cache_inv s'"
proof (cases e)
  case (Generate_settle req outcome uuid now)
  with settle_cache_inv [OF assms] show ?thesis by simp
next
  case Clear_history
  have "cache_inv (clear_history s)"
    unfolding clear_history_def
    by (rule save_history_effect_inv) (simp add: handleClearHistory_def)
  with Clear_history show ?thesis by simp
next
  case Generate_begin
  with assms show ?thesis
    by (simp add: cache_inv_def handleGenerate_begin_def Let_def)
next
  case Record_button
  with assms show ?thesis
    by (simp add: cache_inv_def stopRecording_def split: button_action.splits option.splits)
next
  case (Microphone_settle m)
  with assms show ?thesis
    by (simp add: cache_inv_def startRecording_def split: mic_outcome.splits)
next
  case (Stop_settle outcome)
  with assms show ?thesis
    by (simp add: cache_inv_def onstop_settle_def split: sum.splits)
qed (use assms in \<open>simp_all add: cache_inv_def handleSelectHistory_def ondataavailable_def
      onstop_begin_def\<close>)

lemma run_cache_inv:
  "cache_inv s \<Longrightarrow> \<exists>s'. run evs s = Inr s' \<and> cache_inv s'"
proof (induction evs arbitrary: s)
  case Nil
  then show ?case by simp
next
  case (Cons e evs)
  from step_cache_inv [OF Cons.prems] obtain s1 where s1: "step e s = Inr s1" "cache_inv s1"
    by blast
  from Cons.IH [OF s1(2)] s1(1) show ?case by simp
qed

lemma mount_cache_inv:
  assumes "entry_within_capacity (storage yap_history)"
  shows "cache_inv (mount storage)"
proof (cases "storage yap_history")
  case None
  then show ?thesis
    by (simp add: mount_def load_history_effect_def initial_state_def save_history_effect_def
          cache_inv_def JSON_stringify_def)
next
  case (Some saved)
  with assms show ?thesis
    by (cases saved)
       (simp_all add: mount_def load_history_effect_def initial_state_def save_history_effect_def
          cache_inv_def JSON_stringify_def)
qed

lemma run_settled:
  assumes "history s = JArr prev" "length prev \<le> 10"
  shows "\<exists>s'. run (map settled gens) s = Inr s'
           \<and> history s' = JArr (take 10 (rev (map recorded gens) @ prev))"
  using assms
proof (induction gens arbitrary: s prev)
  case Nil
  then show ?case by simp
next
  case (Cons g gens)
  obtain req result uuid now where g: "g = (req, result, uuid, now)"
    by (cases g) auto
  let ?h = "take 10 (recorded g # prev)"
  let ?s1 = "save_history_effect
               (s\<lparr>generatedContent := result, history := JArr ?h, isLoading := False\<rparr>)"
  have step: "step (settled g) s = Inr ?s1"
    using settle_success [OF Cons.prems(1)] g by simp
  have h1: "history ?s1 = JArr ?h"
    by (simp add: save_history_effect_def)
  have "length ?h \<le> 10" by simp
  from Cons.IH [OF h1 this] obtain s' where
    s': "run (map settled gens) ?s1 = Inr s'"
        "history s' = JArr (take 10 (rev (map recorded gens) @ ?h))"
    by blast
  have "take 10 (rev (map recorded gens) @ ?h) =
          take 10 (rev (map recorded gens) @ recorded g # prev)"
    by (simp add: take_Cons' min_def)
  with s' step show ?case by simp
qed

subsection \<open>Capacity and order\<close>

text \<open>
  C1, as the claim states it, fails for the state obtained by loading: the load effect
  installs the parsed value as it is, without cutting it to 10. A stored array of 11 items
  becomes a history of 11 items.
\<close>

theorem load_exceeds_capacity_counterexample:
  "history (mount (Map.empty(yap_history \<mapsto>
      Json_text (JArr (map (HistoryItem_value \<circ> example_item) [11, 10, 9, 8, 7, 6, 5, 4, 3, 2, 1]))))) =
     JArr (map (HistoryItem_value \<circ> example_item) [11, 10, 9, 8, 7, 6, 5, 4, 3, 2, 1])
   \<and> length (map (HistoryItem_value \<circ> example_item) [11, 10, 9, 8, 7, 6, 5, 4, 3, 2, 1]) = 11
   \<and> \<not> within_capacity (history (mount (Map.empty(yap_history \<mapsto>
      Json_text (JArr (map (HistoryItem_value \<circ> example_item) [11, 10, 9, 8, 7, 6, 5, 4, 3, 2, 1]))))))"
  by (simp add: mount_history)

text \<open>
  C1, amended. (1) Mounting on a storage whose entry is within capacity gives a history
  within capacity, and leaves such an entry. (2) From a state within capacity, every run
  of events completes in a state within capacity: the history is an array of at most 10
  entries in every state reached, and so is what the storage holds. (3) Recording an item
  on a history that is an array puts the item at index 0, in front of the previous entries
  in their order, cuts the result to its first 10 entries and writes it to the storage;
  with 10 entries present, the result is the item followed by all previous entries but
  the last, the oldest. (4) After a sequence of generations recorded on a history within
  capacity, the history is the first 10 entries of: the items of these generations, the
  latest first, followed by the previous entries.
\<close>

theorem history_cache_capacity:
  "(entry_within_capacity (storage yap_history) \<longrightarrow> cache_inv (mount storage))
   \<and> (cache_inv s \<longrightarrow> (\<exists>s'. run evs s = Inr s' \<and> cache_inv s'))
   \<and> (history s = JArr prev \<longrightarrow>
        (\<exists>s'. handleGenerate_settle req (Inr result) uuid now s = Inr s'
           \<and> history s' = JArr (take 10 (recorded (req, result, uuid, now) # prev))
           \<and> localStorage s' yap_history = Some (JSON_stringify (history s'))
           \<and> (length prev = 10 \<longrightarrow>
                history s' = JArr (recorded (req, result, uuid, now) # butlast prev))))
   \<and> (history s = JArr prev \<and> length prev \<le> 10 \<longrightarrow>
        (\<exists>s'. run (map settled gens) s = Inr s'
           \<and> history s' = JArr (take 10 (rev (map recorded gens) @ prev))))"
proof (intro conjI impI)
  assume "entry_within_capacity (storage yap_history)"
  then show "cache_inv (mount storage)" by (rule mount_cache_inv)
next
  assume "cache_inv s"
  then show "\<exists>s'. run evs s = Inr s' \<and> cache_inv s'" by (rule run_cache_inv)
next
  assume prev: "history s = JArr prev"
  let ?x = "recorded (req, result, uuid, now)"
  let ?s' = "save_history_effect
               (s\<lparr>generatedContent := result, history := JArr (take 10 (?x # prev)),
                  isLoading := False\<rparr>)"
  have "handleGenerate_settle req (Inr result) uuid now s = Inr ?s'"
    using settle_success [OF prev] by simp
  moreover have "history ?s' = JArr (take 10 (?x # prev))"
    by (simp add: save_history_effect_def)
  moreover have "localStorage ?s' yap_history = Some (JSON_stringify (history ?s'))"
    by (simp add: save_history_effect_def)
  moreover have "length prev = 10 \<longrightarrow> history ?s' = JArr (?x # butlast prev)"
    by (simp add: save_history_effect_def butlast_conv_take)
  ultimately show "\<exists>s'. handleGenerate_settle req (Inr result) uuid now s = Inr s'
           \<and> history s' = JArr (take 10 (?x # prev))
           \<and> localStorage s' yap_history = Some (JSON_stringify (history s'))
           \<and> (length prev = 10 \<longrightarrow> history s' = JArr (?x # butlast prev))"
    by blast
next
  assume "history s = JArr prev \<and> length prev \<le> 10"
  then show "\<exists>s'. run (map settled gens) s = Inr s'
           \<and> history s' = JArr (take 10 (rev (map recorded gens) @ prev))"
    using run_settled by blast
qed

theorem history_cache_capacity_witness:
  "cache_inv (mount Map.empty)
   \<and> (\<exists>s'. run [Change_topic (lit ''cats''), Generate_begin,
                 Generate_settle \<lparr>req_topic = lit ''cats'', req_style = ZOOMER, req_length = MEDIUM\<rparr>
                   (Inr (lit ''yap'')) (lit ''id'') 7,
                 Clear_history] (mount Map.empty) = Inr s' \<and> cache_inv s')
   \<and> (\<exists>s'. handleGenerate_settle
              \<lparr>req_topic = lit ''cats'', req_style = ZOOMER, req_length = MEDIUM\<rparr>
              (Inr (lit ''yap'')) (lit ''id'') 11
              ((initial_state Map.empty)
                 \<lparr>history := JArr (map JNum [10, 9, 8, 7, 6, 5, 4, 3, 2, 1])\<rparr>) = Inr s'
         \<and> history s' =
             JArr (HistoryItem_value (example_item 11) # map JNum [10, 9, 8, 7, 6, 5, 4, 3, 2]))
   \<and> (\<exists>s'. run (map settled
                 [(\<lparr>req_topic = lit ''cats'', req_style = ZOOMER, req_length = MEDIUM\<rparr>,
                   lit ''yap'', lit ''id'', 1),
                  (\<lparr>req_topic = lit ''cats'', req_style = ZOOMER, req_length = MEDIUM\<rparr>,
                   lit ''yap'', lit ''id'', 2)])
              (initial_state Map.empty) = Inr s'
         \<and> history s' = JArr [HistoryItem_value (example_item 2), HistoryItem_value (example_item 1)])"
proof -
  let ?req = "\<lparr>req_topic = lit ''cats'', req_style = ZOOMER, req_length = MEDIUM\<rparr>"
  let ?prev = "map JNum [10, 9, 8, 7, 6, 5, 4, 3, 2, 1]"
  let ?s = "(initial_state Map.empty)\<lparr>history := JArr ?prev\<rparr>"
  let ?evs = "[Change_topic (lit ''cats''), Generate_begin,
               Generate_settle ?req (Inr (lit ''yap'')) (lit ''id'') 7, Clear_history]"
  let ?gens = "[(?req, lit ''yap'', lit ''id'', 1), (?req, lit ''yap'', lit ''id'', 2)]"
  have e: "entry_within_capacity (Map.empty yap_history)" by simp
  have h: "history ?s = JArr ?prev" by simp
  have l: "length ?prev = 10" by simp
  have h0: "history (initial_state Map.empty) = JArr [] \<and> length ([] :: jsvalue list) \<le> 10"
    by (simp add: initial_state_def)
  note A = history_cache_capacity [of Map.empty "mount Map.empty" ?evs "?prev" ?req "lit ''yap''" "lit ''id''" 11 ?gens]
  note B = history_cache_capacity [of Map.empty ?s ?evs "?prev" ?req "lit ''yap''" "lit ''id''" 11 ?gens]
  note C = history_cache_capacity [of Map.empty "initial_state Map.empty" ?evs "[]" ?req "lit ''yap''" "lit ''id''" 11 ?gens]
  from A e have m: "cache_inv (mount Map.empty)" by blast
  with A have r: "\<exists>s'. run ?evs (mount Map.empty) = Inr s' \<and> cache_inv s'" by blast
  from B h l obtain s' where
    "handleGenerate_settle ?req (Inr (lit ''yap'')) (lit ''id'') 11 ?s = Inr s'"
    "history s' = JArr (recorded (?req, lit ''yap'', lit ''id'', 11) # butlast ?prev)"
    by blast
  then have b: "\<exists>s'. handleGenerate_settle ?req (Inr (lit ''yap'')) (lit ''id'') 11 ?s = Inr s'
         \<and> history s' =
             JArr (HistoryItem_value (example_item 11) # map JNum [10, 9, 8, 7, 6, 5, 4, 3, 2])"
    by (simp add: example_item_def)
  from C h0 obtain s'' where
    "run (map settled ?gens) (initial_state Map.empty) = Inr s''"
    "history s'' = JArr (take 10 (rev (map recorded ?gens) @ []))"
    by blast
  then have c: "\<exists>s'. run (map settled ?gens) (initial_state Map.empty) = Inr s'
         \<and> history s' = JArr [HistoryItem_value (example_item 2), HistoryItem_value (example_item 1)]"
    by (simp add: example_item_def)
  from m r b c show ?thesis by blast
qed

subsection \<open>Clearing\<close>

text \<open>
  C4. The claim fails on the code. The handler removes the entry, but its \<open>setHistory([])\<close>
  causes a render with a new history, after which the save effect writes the entry again,
  as the text of the empty array. For a component mounted on a stored history of one item:
  the click empties the history, the handler alone leaves no entry, and the click as a
  whole leaves the entry \<open>[]\<close>.
\<close>

theorem clear_history_entry_rewritten:
  "history (mount (Map.empty(yap_history \<mapsto> Json_text (JArr [HistoryItem_value (example_item 1)])))) =
     JArr [HistoryItem_value (example_item 1)]
   \<and> history (clear_history
        (mount (Map.empty(yap_history \<mapsto> Json_text (JArr [HistoryItem_value (example_item 1)]))))) =
     JArr []
   \<and> localStorage (handleClearHistory
        (mount (Map.empty(yap_history \<mapsto> Json_text (JArr [HistoryItem_value (example_item 1)])))))
        yap_history = None
   \<and> localStorage (clear_history
        (mount (Map.empty(yap_history \<mapsto> Json_text (JArr [HistoryItem_value (example_item 1)])))))
        yap_history = Some (Json_text (JArr []))
   \<and> step Clear_history
        (mount (Map.empty(yap_history \<mapsto> Json_text (JArr [HistoryItem_value (example_item 1)])))) =
      Inr (clear_history
        (mount (Map.empty(yap_history \<mapsto> Json_text (JArr [HistoryItem_value (example_item 1)])))))"
  by (simp add: clear_history_entry mount_history)

text \<open>
  C9. Whatever the history and the storage were, mounting the component on the storage
  left by a clear gives the empty history: on the storage the click as a whole leaves
  (the entry is the text of the empty array), and on the storage the handler alone leaves
  (there is no entry).
\<close>

theorem clear_then_load_empty:
  "history (mount (localStorage (clear_history s))) = JArr []
   \<and> history (mount (localStorage (handleClearHistory s))) = JArr []"
  by (simp add: mount_history clear_history_entry)

subsection \<open>Loading\<close>

text \<open>
  C6, as the claim states it, fails for a stored text that is valid JSON but not that of a
  history sequence: the text \<open>{}\<close> parses, and the object becomes the history.
\<close>

theorem load_parsed_value_unchecked_counterexample:
  "JSON_parse (Json_text (JObj [])) = Inr (JObj [])
   \<and> history (mount (Map.empty(yap_history \<mapsto> Json_text (JObj [])))) = JObj []
   \<and> history (mount (Map.empty(yap_history \<mapsto> Json_text (JObj [])))) \<noteq> JArr []"
  by (simp add: mount_history)

text \<open>
  C6, amended. Mounting never throws. When the entry is missing, empty or not valid JSON,
  the history is the empty array, and the message \<open>Failed to parse history\<close> is logged
  exactly when the entry is a text that is not empty and does not parse. When the entry
  is valid JSON, the history is the parsed value, whatever it is.
\<close>

theorem load_history_outcome:
  "history (mount storage) =
     (case storage yap_history of Some (Json_text v) \<Rightarrow> v | _ \<Rightarrow> JArr [])
   \<and> console_error (mount storage) =
     (if storage yap_history = Some Malformed_text
      then [Log_message (lit ''Failed to parse history'')] else [])"
  by (simp add: mount_def load_history_effect_def initial_state_def save_history_effect_def
        split: option.splits stored_text.splits)

section \<open>Recording sessions\<close>

text \<open>
  C8, as the claim states it, fails: \<open>startRecording\<close> does not read the recording flag.
  Invoked in a state where the flag is set and recorder 0 is capturing, it changes the
  state and a second recorder captures beside the first. The same state is reached
  through the button alone, by two clicks before the microphone has answered the first.
\<close>

theorem start_recording_unguarded_counterexample:
  "isRecording (startRecording Granted (initial_state Map.empty))
   \<and> startRecording Granted (startRecording Granted (initial_state Map.empty)) \<noteq>
       startRecording Granted (initial_state Map.empty)
   \<and> recorders_capturing (startRecording Granted (initial_state Map.empty)) = [0]
   \<and> recorders_capturing (startRecording Granted (startRecording Granted (initial_state Map.empty))) =
       [1, 0]
   \<and> map_sum id recorders_capturing
        (run [Record_button, Record_button, Microphone_settle Granted, Microphone_settle Granted]
           (mount Map.empty)) = Inr [1, 0]"
proof -
  have "recorders_capturing (startRecording Granted (startRecording Granted (initial_state Map.empty))) =
       [1, 0]"
    by (simp add: startRecording_def initial_state_def)
  moreover have "recorders_capturing (startRecording Granted (initial_state Map.empty)) = [0]"
    by (simp add: startRecording_def initial_state_def)
  ultimately have "startRecording Granted (startRecording Granted (initial_state Map.empty)) \<noteq>
       startRecording Granted (initial_state Map.empty)"
    by auto
  moreover have "isRecording (startRecording Granted (initial_state Map.empty))"
    by (simp add: startRecording_def)
  moreover have "map_sum id recorders_capturing
        (run [Record_button, Record_button, Microphone_settle Granted, Microphone_settle Granted]
           (mount Map.empty)) = Inr [1, 0]"
    by (simp add: mount_def load_history_effect_def initial_state_def save_history_effect_def
          record_button_def startRecording_def)
  ultimately show ?thesis
    by (simp add: startRecording_def initial_state_def)
qed

text \<open>
  C8, amended. The guard is in the record button: while the recording flag is set, a
  click does not invoke \<open>startRecording\<close>; it runs \<open>stopRecording\<close>, or nothing while a
  transcription is in flight. Such a click creates no recorder and adds none to those
  capturing.
\<close>

theorem record_button_stops_while_recording:
  assumes "isRecording s"
  shows "record_button s \<noteq> Starts
         \<and> record_button_click m s = (if isTranscribing s then s else stopRecording s)
         \<and> step Record_button s = Inr (if isTranscribing s then s else stopRecording s)
         \<and> recorders_created (record_button_click m s) = recorders_created s
         \<and> set (recorders_capturing (record_button_click m s)) \<subseteq> set (recorders_capturing s)"
  using assms
  by (auto simp: record_button_def record_button_click_def stopRecording_def
        split: option.splits)

theorem record_button_stops_while_recording_witness:
  "isRecording (startRecording Granted (initial_state Map.empty))
   \<and> record_button_click Granted (startRecording Granted (initial_state Map.empty)) =
       stopRecording (startRecording Granted (initial_state Map.empty))
   \<and> recorders_capturing
       (record_button_click Granted (startRecording Granted (initial_state Map.empty))) = []
   \<and> recorders_created
       (record_button_click Granted (startRecording Granted (initial_state Map.empty))) = 1"
proof -
  let ?s = "startRecording Granted (initial_state Map.empty)"
  have h: "isRecording ?s" by (simp add: startRecording_def)
  have t: "\<not> isTranscribing ?s" by (simp add: startRecording_def initial_state_def)
  note W = record_button_stops_while_recording [OF h, of Granted]
  from W t have "record_button_click Granted ?s = stopRecording ?s"
    by simp
  moreover from W have "recorders_created (record_button_click Granted ?s) = recorders_created ?s"
    by blast
  ultimately show ?thesis using h
    by (simp add: stopRecording_def startRecording_def initial_state_def)
qed

end
